theory Spec2Isabelle
  imports Complex_Main "HOL-Library.Monad_Syntax"
begin

section \<open>Brushless DC motor sizing (hyperloop/Python/pod/drivetrain/electric_motor.py)\<close>

text \<open>
  The module holds three OpenMDAO components and the group that wires them:
  \<^item> \<open>MotorSize\<close> (the sizing model): geometry, mass, torque limits and losses;
  \<^item> \<open>Motor\<close> (the electrical model): terminal current, voltage, frequency, input power;
  \<^item> \<open>MotorBalance\<close> (the energy balance): the residual whose unknown is the no-load
    current \<open>I0\<close>;
  \<^item> \<open>MotorGroup\<close>: the connections and the options of the Newton and linear solvers.

  Numbers. Python floats are read as real numbers: every literal stands for the decimal
  fraction it is written as, and rounding and overflow are left out. What is kept is where
  a float operation has no finite real result: a division by zero and a power outside the
  real domain give \<open>inf\<close> or \<open>nan\<close> in numpy (with a warning, not an exception). Such an
  operation is \<open>None\<close> here, and an evaluation that meets one ends in \<open>Inl NonFinite\<close>:
  at that input at least one output of the Python component is \<open>inf\<close> or \<open>nan\<close>.

  Two properties are exact relations between computed values, which the rounding of
  doubles can break. For these the computations concerned are given a second time in
  double precision, every operation rounded (subsection \<open>Double precision\<close>).
\<close>

subsection \<open>Errors and float operations\<close>

text \<open>
  \<open>DomainError\<close>, \<open>NonConvergenceError\<close> (with the last guess and residual) and
  \<open>LinearSolveError\<close> are the error kinds the specification names. The source file has no
  \<open>raise\<close> statement. \<open>NonFinite\<close> is not an exception of the program: it marks the
  evaluations described above.
\<close>

datatype error = DomainError | NonFinite | NonConvergenceError real real | LinearSolveError

definition finite_result :: "'a option \<Rightarrow> error + 'a" where
  "finite_result r = (case r of None \<Rightarrow> Inl NonFinite | Some v \<Rightarrow> Inr v)"

text \<open>Float division \<open>x / y\<close>: \<open>inf\<close> or \<open>nan\<close> when the divisor is zero.\<close>

definition fdiv :: "real \<Rightarrow> real \<Rightarrow> real option" where
  "fdiv x y = (if y = 0 then None else Some (x / y))"

text \<open>
  \<open>np.power(x, y)\<close> on floats follows C's \<open>pow\<close>: defined for a positive base; at base
  zero it is 1 for exponent 0, 0 for a positive exponent and \<open>inf\<close> for a negative one;
  for a negative base it is defined for integral exponents only (\<open>nan\<close> otherwise).
\<close>

definition np_power :: "real \<Rightarrow> real \<Rightarrow> real option" where
  "np_power x y =
     (if 0 < x then Some (x powr y)
      else if x = 0 then (if y = 0 then Some 1 else if 0 < y then Some 0 else None)
      else if y = of_int \<lfloor>y\<rfloor>
           then Some (if even \<lfloor>y\<rfloor> then (- x) powr y else - ((- x) powr y))
      else None)"

subsection \<open>Data model\<close>

text \<open>The parameters of \<open>MotorSize\<close> (\<open>add_param\<close> in \<open>MotorSize.__init__\<close>).\<close>

record DesignParameters =
  max_current :: real
  speed :: real
  L_D_ratio :: real
  core_radius_ratio :: real
  max_rpm :: real
  pole_pairs :: real
  design_power :: real
  n_phases :: real
  kappa :: real

text \<open>
  The outputs of \<open>MotorSize\<close> (\<open>add_output\<close> in \<open>MotorSize.__init__\<close>). They live in the
  \<open>unknowns\<close> vector, which persists from one evaluation to the next.
\<close>

record SizingState =
  d_base :: real
  l_base :: real
  mass :: real
  max_torque :: real
  torque :: real
  w_base :: real
  D2L :: real
  power_mech :: real
  w_operating :: real
  power_iron_loss :: real
  winding_resistance :: real
  power_windage_loss :: real

text \<open>The outputs of \<open>Motor\<close>; they are the parameters of \<open>MotorBalance\<close>.\<close>

record ElectricalState =
  current :: real
  phase_current :: real
  voltage :: real
  phase_voltage :: real
  frequency :: real
  power_input :: real

text \<open>The values the \<open>unknowns\<close> of \<open>MotorSize\<close> hold before the first evaluation.\<close>

definition MotorSize_init :: SizingState where
  "MotorSize_init =
     \<lparr>d_base = 0.48, l_base = 0.4, mass = 0, max_torque = 0, torque = 1000,
      w_base = 3000, D2L = 1, power_mech = 0, w_operating = 0, power_iron_loss = 0,
      winding_resistance = 0, power_windage_loss = 0\<rparr>"

text \<open>The parameter set of the module's \<open>__main__\<close> block.\<close>

definition example_params :: DesignParameters where
  "example_params =
     \<lparr>max_current = 450, speed = 1900, L_D_ratio = 0.83, core_radius_ratio = 0.7,
      max_rpm = 2500, pole_pairs = 6, design_power = 110000, n_phases = 3,
      kappa = 0.5\<rparr>"

subsection \<open>MotorSize\<close>

definition calculate_windage_loss :: "real \<Rightarrow> real \<Rightarrow> real \<Rightarrow> real" where
  "calculate_windage_loss w_op d l = 0"

definition calculate_copper_loss :: "real \<Rightarrow> real \<Rightarrow> real \<Rightarrow> real option" where
  "calculate_copper_loss d mc n = do {
     let As = 688.7 * mc;
     q1 \<leftarrow> fdiv (As * pi * d) mc;
     q2 \<leftarrow> fdiv q1 n;
     let n_coil_turns = q2 / 2;
     pw \<leftarrow> np_power mc (- 1.00112597971171);
     let resistance_per_km_per_turn = 48.8387296964863 * pw;
     let winding_len = d * 3.14159;
     let resistance_per_turn = resistance_per_km_per_turn * winding_len / 1000;
     Some (resistance_per_turn * n_coil_turns * n)
   }"

definition calculate_iron_loss ::
  "real \<Rightarrow> real \<Rightarrow> real \<Rightarrow> real \<Rightarrow> real \<Rightarrow> real option" where
  "calculate_iron_loss d spd l crr pp = do {
     let stator_core_density = 7650;
     let Kh = 0.0275;
     let Kc = 0.0000183;
     let Ke = 0.0000277;
     let Bp = 1.22;
     let freq = spd * pp / 60;
     p1 \<leftarrow> np_power (d / 2) 2;
     p2 \<leftarrow> np_power crr 2;
     let volume_iron = pi * l * p1 * (1 - p2);
     let iron_core_mass = stator_core_density * volume_iron;
     p3 \<leftarrow> np_power Bp 2;
     p4 \<leftarrow> np_power (Bp * freq) 2;
     p5 \<leftarrow> np_power (Bp * freq) 1.5;
     Some ((Kh * p3 * freq + Kc * p4 + Ke * p5) * iron_core_mass)
   }"

text \<open>
  \<open>MotorSize.solve_nonlinear\<close>, statement by statement: each assignment to
  \<open>unknowns[...]\<close> is a record update, and each read of \<open>unknowns[...]\<close> reads the record
  as it is at that statement.
\<close>

definition MotorSize_solve_nonlinear ::
  "DesignParameters \<Rightarrow> SizingState \<Rightarrow> error + SizingState" where
  "MotorSize_solve_nonlinear params unknowns = finite_result (do {
     let w_max = max_rpm params * 2 * pi / 60;
     let u1 = unknowns\<lparr>w_base := kappa params * w_max\<rparr>;
     mt \<leftarrow> fdiv (design_power params) (w_base u1);
     let u2 = u1\<lparr>max_torque := mt\<rparr>;
     tq \<leftarrow> fdiv (design_power params) w_max;
     let u3 = u2\<lparr>torque := tq\<rparr>;
     let u4 = u3\<lparr>power_mech := w_operating u3 * torque u3\<rparr>;
     let u5 = u4\<lparr>w_operating := speed params * 2 * pi / 60\<rparr>;
     il \<leftarrow> calculate_iron_loss (d_base u5) (speed params) (l_base u5)
             (core_radius_ratio params) (pole_pairs params);
     let u6 = u5\<lparr>power_iron_loss := il\<rparr>;
     wr \<leftarrow> calculate_copper_loss (d_base u6) (max_current params) (n_phases params);
     let u7 = u6\<lparr>winding_resistance := wr\<rparr>;
     let u8 = u7\<lparr>power_windage_loss :=
                 calculate_windage_loss (w_operating u7) (d_base u7) (l_base u7)\<rparr>;
     pt \<leftarrow> np_power (max_torque u8) 0.7592;
     let u9 = u8\<lparr>D2L := 293722 * pt\<rparr>;
     dl \<leftarrow> fdiv (D2L u9) (L_D_ratio params);
     pd \<leftarrow> np_power dl (1 / 3);
     let u10 = u9\<lparr>d_base := pd / 1000\<rparr>;
     let u11 = u10\<lparr>l_base := d_base u10 * L_D_ratio params\<rparr>;
     pm \<leftarrow> np_power (D2L u11) 0.9386912061;
     Some (u11\<lparr>mass := 0.0000070646 * pm\<rparr>)
   })"

subsection \<open>Motor\<close>

text \<open>
  \<open>Motor.solve_nonlinear\<close>. In \<open>MotorGroup\<close> its parameters \<open>max_current\<close>, \<open>n_phases\<close>
  and \<open>pole_pairs\<close> are the design parameters of those names, \<open>max_torque\<close> and
  \<open>torque\<close> are the promoted outputs of \<open>MotorSize\<close>, \<open>power_iron_loss\<close>,
  \<open>power_mech\<close>, \<open>power_windage_loss\<close>, \<open>w_operating\<close> and \<open>winding_resistance\<close> are
  connected from \<open>motor_size\<close>, and \<open>I0\<close> is the state of \<open>MotorBalance\<close>. All six
  outputs are assigned, none is read before it is assigned.
\<close>

definition Motor_solve_nonlinear ::
  "DesignParameters \<Rightarrow> SizingState \<Rightarrow> real \<Rightarrow> error + ElectricalState" where
  "Motor_solve_nonlinear params sz I0 = finite_result (do {
     q \<leftarrow> fdiv (max_current params - I0) (max_torque sz);
     let k_v = q * 30 / pi;
     k_t \<leftarrow> fdiv (30 / pi * 1) k_v;
     tk \<leftarrow> fdiv (torque sz) k_t;
     let cur = I0 + tk;
     c2 \<leftarrow> np_power cur 2;
     let power_copper_loss = c2 * winding_resistance sz;
     let pin = power_mech sz + power_windage_loss sz + power_iron_loss sz
               + power_copper_loss;
     pc \<leftarrow> fdiv cur (n_phases params);
     emf \<leftarrow> fdiv (w_operating sz) (k_v * pi / 30);
     let v = cur * winding_resistance sz + emf;
     Some \<lparr>current = cur, phase_current = pc, voltage = v,
           phase_voltage = v * sqrt (3 / 2),
           frequency = w_operating sz / pi * pole_pairs params / 60,
           power_input = pin\<rparr>
   })"

subsection \<open>MotorBalance\<close>

text \<open>\<open>MotorBalance.apply_nonlinear\<close>: the residual stored in \<open>resids['I0']\<close>.\<close>

definition MotorBalance_apply_nonlinear :: "ElectricalState \<Rightarrow> real" where
  "MotorBalance_apply_nonlinear params = current params * voltage params - power_input params"

text \<open>The initial value of the state \<open>I0\<close> (\<open>add_state\<close> in \<open>MotorBalance.__init__\<close>).\<close>

definition MotorBalance_I0_init :: real where
  "MotorBalance_I0_init = 40"

subsection \<open>MotorGroup\<close>

text \<open>
  The options set in \<open>MotorGroup.__init__\<close>: \<open>nl_solver.options['maxiter']\<close>,
  \<open>nl_solver.options['atol']\<close> and \<open>ln_solver.options['maxiter']\<close>.
\<close>

definition MotorGroup_nl_maxiter :: nat where
  "MotorGroup_nl_maxiter = 1000"

definition MotorGroup_nl_atol :: real where
  "MotorGroup_nl_atol = 0.0001"

definition MotorGroup_ln_maxiter :: nat where
  "MotorGroup_ln_maxiter = 100"

text \<open>
  One pass over the models, wired as \<open>MotorGroup.__init__\<close> connects them and in the order
  the specification gives for an iteration: the sizing model on the stored outputs, the
  electrical model on its result and the guess for \<open>I0\<close>, then the residual.
\<close>

definition MotorGroup_evaluate ::
  "DesignParameters \<Rightarrow> SizingState \<Rightarrow> real
     \<Rightarrow> error + (SizingState \<times> ElectricalState \<times> real)" where
  "MotorGroup_evaluate params unknowns i0 =
     (case MotorSize_solve_nonlinear params unknowns of
        Inl e \<Rightarrow> Inl e
      | Inr sz \<Rightarrow>
          (case Motor_solve_nonlinear params sz i0 of
             Inl e \<Rightarrow> Inl e
           | Inr el \<Rightarrow> Inr (sz, el, MotorBalance_apply_nonlinear el)))"


subsection \<open>The coupled solver\<close>

text \<open>
  Modelled from the spec: the Newton driver and the linear solver are OpenMDAO's \<open>Newton\<close>
  and \<open>ScipyGMRES\<close>, which the module imports and configures but does not contain. What
  follows is the state machine of the specification (INIT, ITERATING, CONVERGED,
  MAX_ITER): start from the default guess with iteration 0; in each round evaluate the
  models at the guess; stop as converged when the absolute residual is at most the
  tolerance; fail with a non-convergence error, carrying the last guess and residual,
  when another step would exceed the iteration cap; otherwise take the Newton step, whose
  linear solve has its own cap and whose failure is a \<open>LinearSolveError\<close>. An error of a
  model evaluation ends the solve. The models and the step are parameters: \<open>eval\<close> maps
  the stored model outputs and a guess to the new outputs and the residual, \<open>step\<close> maps
  the linear cap, the outputs, the guess and the residual to the next guess.
\<close>

record SolverState =
  I0 :: real
  residual :: real
  iteration :: nat
  converged :: bool

text \<open>
  Modelled from the spec: INIT of the state machine, \<open>I0 := 40.0\<close> (the initial value of
  the state of \<open>MotorBalance\<close>) and \<open>iteration := 0\<close>; no residual is evaluated yet and
  the solve is not converged.
\<close>

definition CoupledSolver_init :: SolverState where
  "CoupledSolver_init =
     \<lparr>I0 = MotorBalance_I0_init, residual = 0, iteration = 0, converged = False\<rparr>"

text \<open>
  Modelled from the spec: ITERATING with its transitions to CONVERGED and MAX_ITER, for
  the Newton cap \<open>cap\<close>, the tolerance \<open>tol\<close> and the linear cap \<open>lcap\<close>.
\<close>

function CoupledSolver_iterate ::
  "nat \<Rightarrow> real \<Rightarrow> nat \<Rightarrow> ('m \<Rightarrow> real \<Rightarrow> error + 'm \<times> real)
     \<Rightarrow> (nat \<Rightarrow> 'm \<Rightarrow> real \<Rightarrow> real \<Rightarrow> real option)
     \<Rightarrow> 'm \<Rightarrow> SolverState \<Rightarrow> error + 'm \<times> SolverState" where
  "CoupledSolver_iterate cap tol lcap eval step m st =
     (case eval m (I0 st) of
        Inl e \<Rightarrow> Inl e
      | Inr (m', r) \<Rightarrow>
          if \<bar>r\<bar> \<le> tol then Inr (m', st\<lparr>residual := r, converged := True\<rparr>)
          else if cap \<le> iteration st then Inl (NonConvergenceError (I0 st) r)
          else (case step lcap m' (I0 st) r of
                  None \<Rightarrow> Inl LinearSolveError
                | Some i' \<Rightarrow>
                    CoupledSolver_iterate cap tol lcap eval step m'
                      (st\<lparr>I0 := i', residual := r, iteration := Suc (iteration st)\<rparr>)))"
  by pat_completeness auto
termination
  by (relation "measure (\<lambda>(cap, tol, lcap, eval, step, m, st). cap - iteration st)") auto

declare CoupledSolver_iterate.simps [simp del]

text \<open>
  Modelled from the spec: a solve, from INIT, with the caps and the tolerance that
  \<open>MotorGroup.__init__\<close> sets.
\<close>

definition CoupledSolver_solve ::
  "('m \<Rightarrow> real \<Rightarrow> error + 'm \<times> real)
     \<Rightarrow> (nat \<Rightarrow> 'm \<Rightarrow> real \<Rightarrow> real \<Rightarrow> real option)
     \<Rightarrow> 'm \<Rightarrow> error + 'm \<times> SolverState" where
  "CoupledSolver_solve eval step m =
     CoupledSolver_iterate MotorGroup_nl_maxiter MotorGroup_nl_atol MotorGroup_ln_maxiter
       eval step m CoupledSolver_init"


subsection \<open>Double precision\<close>

text \<open>
  Rounding to the nearest double, ties to even: the exact result of an operation is scaled
  by the power of two of its binade to an integer of 53 bits, rounded, and scaled back.
  This is what each arithmetic operation of the program does to its exact result, and
  what Python does to a decimal literal. Overflow and subnormal numbers are left out.
\<close>

definition round_half_even :: "real \<Rightarrow> int" where
  "round_half_even y =
     (let f = \<lfloor>y\<rfloor>
      in if y - of_int f < 1 / 2 then f
         else if 1 / 2 < y - of_int f then f + 1
         else if even f then f else f + 1)"

definition rnd :: "real \<Rightarrow> real" where
  "rnd x =
     (if x = 0 then 0
      else let u = 2 powr (of_int \<lfloor>log 2 \<bar>x\<bar>\<rfloor> - 52)
           in of_int (round_half_even (x / u)) * u)"

text \<open>\<open>np.pi\<close>: the double \<open>0x1.921fb54442d18p+1\<close>, that is 3.141592653589793.\<close>

definition np_pi :: real where
  "np_pi = 884279719003555 / 2 ^ 48"

text \<open>Division of doubles: rounded, and \<open>inf\<close> or \<open>nan\<close> when the divisor is zero.\<close>

definition ddiv :: "real \<Rightarrow> real \<Rightarrow> real option" where
  "ddiv x y = (if y = 0 then None else Some (rnd (x / y)))"

text \<open>
  The first three statements of \<open>MotorSize.solve_nonlinear\<close> in doubles, up to
  \<open>unknowns['max_torque']\<close>: \<open>max_rpm * 2.0 * np.pi / 60.0\<close> is three operations from
  the left, each rounded. The parameters are doubles.
\<close>

definition MotorSize_max_torque_double :: "DesignParameters \<Rightarrow> real option" where
  "MotorSize_max_torque_double params = do {
     let w_max = rnd (rnd (rnd (max_rpm params * 2) * np_pi) / 60);
     let w_base = rnd (kappa params * w_max);
     ddiv (design_power params) w_base
   }"

text \<open>
  \<open>calculate_copper_loss\<close> in doubles, operation by operation from the left. The
  arguments \<open>d\<close>, \<open>mc\<close> and \<open>n\<close> are doubles. The power is computed by the library
  (\<open>np.power\<close>, C's \<open>pow\<close>), which the module does not contain: \<open>pw\<close> stands for the
  double that \<open>np.power(max_current, -1.00112597971171)\<close> returns. At
  \<open>max_current = 1.0\<close> that double is exactly 1.0, whatever the exponent.
\<close>

definition calculate_copper_loss_double ::
  "real \<Rightarrow> real \<Rightarrow> real \<Rightarrow> real \<Rightarrow> real option" where
  "calculate_copper_loss_double pw d mc n = do {
     let As = rnd (rnd 688.7 * mc);
     q1 \<leftarrow> ddiv (rnd (rnd (As * np_pi) * d)) mc;
     q2 \<leftarrow> ddiv q1 n;
     let n_coil_turns = rnd (q2 / 2);
     let resistance_per_km_per_turn = rnd (rnd 48.8387296964863 * pw);
     let winding_len = rnd (d * rnd 3.14159);
     let resistance_per_turn = rnd (rnd (resistance_per_km_per_turn * winding_len) / 1000);
     Some (rnd (rnd (resistance_per_turn * n_coil_turns) * n))
   }"

section \<open>Properties\<close>

subsection \<open>Float operations on their domains\<close>

lemma fdiv_Some: "y \<noteq> 0 \<Longrightarrow> fdiv x y = Some (x / y)"
  by (simp add: fdiv_def)

lemma fdiv_SomeD: "fdiv x y = Some q \<Longrightarrow> y \<noteq> 0 \<and> q = x / y"
  by (auto simp add: fdiv_def split: if_splits)

lemma np_power_pos: "0 < x \<Longrightarrow> np_power x y = Some (x powr y)"
  by (simp add: np_power_def)

lemma np_power_nonneg: "0 \<le> x \<Longrightarrow> 0 < y \<Longrightarrow> np_power x y = Some (x powr y)"
  by (simp add: np_power_def)

lemma np_power_two: "np_power x 2 = Some (x\<^sup>2)"
proof -
  consider "0 < x" | "x = 0" | "x < 0" by linarith
  then show ?thesis
  proof cases
    case 1
    then show ?thesis by (simp add: np_power_def)
  next
    case 2
    then show ?thesis by (simp add: np_power_def)
  next
    case 3
    then have "(- x) powr 2 = (- x)\<^sup>2" by simp
    with 3 show ?thesis by (simp add: np_power_def)
  qed
qed

lemma finite_result_Inr: "finite_result r = Inr v \<longleftrightarrow> r = Some v"
  by (simp add: finite_result_def split: option.splits)

lemma finite_result_not_DomainError: "finite_result r \<noteq> Inl DomainError"
  by (simp add: finite_result_def split: option.splits)

subsection \<open>Rounding to doubles\<close>

text \<open>
  A number whose scaling by \<open>2 ^ k\<close> lies in the 53-bit range is rounded at that scale.
  The lemmas after it are the single operations of the two double computations used
  below, each at the operands the one before has produced.
\<close>

lemma rnd_scaled:
  assumes lo: "2 ^ 52 \<le> \<bar>x\<bar> * 2 ^ k" and hi: "\<bar>x\<bar> * 2 ^ k < 2 ^ 53"
  shows "rnd x = of_int (round_half_even (x * 2 ^ k)) / 2 ^ k"
proof -
  let ?e = "52 - int k"
  have x0: "x \<noteq> 0" using lo by auto
  then have pos: "0 < \<bar>x\<bar>" by simp
  have p: "2 powr real_of_int ?e = 2 ^ 52 / (2 ^ k :: real)"
    by (simp add: powr_diff powr_realpow)
  have p1: "2 powr real_of_int (?e + 1) = 2 ^ 53 / (2 ^ k :: real)"
  proof -
    have "real_of_int (?e + 1) = 53 - real k" by simp
    then show ?thesis by (simp add: powr_diff powr_realpow)
  qed
  have "2 powr real_of_int ?e \<le> \<bar>x\<bar>"
    unfolding p using lo by (simp add: divide_le_eq)
  moreover have "\<bar>x\<bar> < 2 powr real_of_int (?e + 1)"
    unfolding p1 using hi by (simp add: less_divide_eq)
  ultimately have fl: "\<lfloor>log 2 \<bar>x\<bar>\<rfloor> = ?e"
    using floor_log_eq_powr_iff[OF pos, of 2 ?e] by simp
  have u: "2 powr (real_of_int ?e - 52) = 1 / (2 ^ k :: real)"
  proof -
    have "real_of_int ?e - 52 = - real k" by simp
    then show ?thesis by (simp add: powr_minus powr_realpow inverse_eq_divide)
  qed
  show ?thesis
    unfolding rnd_def fl u Let_def using x0 by simp
qed

lemma ddiv_Some: "y \<noteq> 0 \<Longrightarrow> ddiv x y = Some (rnd (x / y))"
  by (simp add: ddiv_def)

lemma mt_rpm2: "rnd (2500 * 2) = 5000"
  by (subst rnd_scaled[where k = 40]) (simp_all add: round_half_even_def np_pi_def)

lemma mt_pi: "rnd (5000 * np_pi) = 2158886032723523 / 2 ^ 37"
  by (subst rnd_scaled[where k = 39]) (simp_all add: round_half_even_def np_pi_def)

lemma mt_w_max: "rnd ((2158886032723523 / 2 ^ 37) / 60) = 4605623536476849 / 2 ^ 44"
  by (subst rnd_scaled[where k = 44]) (simp_all add: round_half_even_def np_pi_def)

lemma mt_w_base: "rnd (1 / 2 * (4605623536476849 / 2 ^ 44)) = 4605623536476849 / 2 ^ 45"
  by (subst rnd_scaled[where k = 45]) (simp_all add: round_half_even_def np_pi_def)

lemma mt_q_lo: "rnd (110041 / (4605623536476849 / 2 ^ 45)) = 3697223589382035 / 2 ^ 42"
  by (subst rnd_scaled[where k = 43]) (simp_all add: round_half_even_def np_pi_def)

lemma mt_q_hi: "rnd ((110041 + 1 / 2 ^ 36) / (4605623536476849 / 2 ^ 45)) = 3697223589382035 / 2 ^ 42"
  by (subst rnd_scaled[where k = 43]) (simp_all add: round_half_even_def np_pi_def)

lemma MotorSize_max_torque_double_at:
  assumes "max_rpm p = 2500" and "kappa p = 1 / 2"
    and "design_power p = 110041 \<or> design_power p = 110041 + 1 / 2 ^ 36"
  shows "MotorSize_max_torque_double p = Some (3697223589382035 / 2 ^ 42)"
proof -
  have dv: "ddiv x (4605623536476849 / 2 ^ 45) = Some (rnd (x / (4605623536476849 / 2 ^ 45)))" for x
    by (rule ddiv_Some) simp
  from assms(3) show ?thesis
  proof
    assume dp: "design_power p = 110041"
    show ?thesis
      unfolding MotorSize_max_torque_double_def Let_def
      by (simp only: assms(1,2) dp dv mt_rpm2 mt_pi mt_w_max mt_w_base mt_q_lo mt_q_hi)
  next
    assume dp: "design_power p = 110041 + 1 / 2 ^ 36"
    show ?thesis
      unfolding MotorSize_max_torque_double_def Let_def
      by (simp only: assms(1,2) dp dv mt_rpm2 mt_pi mt_w_max mt_w_base mt_q_lo mt_q_hi)
  qed
qed

lemma cl_d: "rnd (0.48) = 1080863910568919 / 2 ^ 51"
  by (subst rnd_scaled[where k = 54]) (simp_all add: round_half_even_def np_pi_def)

lemma cl_As_const: "rnd (688.7) = 3028934632197325 / 2 ^ 42"
  by (subst rnd_scaled[where k = 43]) (simp_all add: round_half_even_def np_pi_def)

lemma cl_As: "rnd ((3028934632197325 / 2 ^ 42) * 1) = 3028934632197325 / 2 ^ 42"
  by (subst rnd_scaled[where k = 43]) (simp_all add: round_half_even_def np_pi_def)

lemma cl_As_pi: "rnd ((3028934632197325 / 2 ^ 42) * np_pi) = 4757839394357409 / 2 ^ 41"
  by (subst rnd_scaled[where k = 41]) (simp_all add: round_half_even_def np_pi_def)

lemma cl_As_pi_d: "rnd ((4757839394357409 / 2 ^ 41) * (1080863910568919 / 2 ^ 51)) = 570940727322889 / 2 ^ 39"
  by (subst rnd_scaled[where k = 42]) (simp_all add: round_half_even_def np_pi_def)

lemma cl_q1: "rnd ((570940727322889 / 2 ^ 39) / 1) = 570940727322889 / 2 ^ 39"
  by (subst rnd_scaled[where k = 42]) (simp_all add: round_half_even_def np_pi_def)

lemma cl_turns_n1: "rnd ((570940727322889 / 2 ^ 39) / 2) = 570940727322889 / 2 ^ 40"
  by (subst rnd_scaled[where k = 43]) (simp_all add: round_half_even_def np_pi_def)

lemma cl_q2_n3: "rnd ((570940727322889 / 2 ^ 39) / 3) = 6090034424777483 / 2 ^ 44"
  by (subst rnd_scaled[where k = 44]) (simp_all add: round_half_even_def np_pi_def)

lemma cl_turns_n3: "rnd ((6090034424777483 / 2 ^ 44) / 2) = 6090034424777483 / 2 ^ 45"
  by (subst rnd_scaled[where k = 45]) (simp_all add: round_half_even_def np_pi_def)

lemma cl_rpk_const: "rnd (48.8387296964863) = 1718360037987063 / 2 ^ 45"
  by (subst rnd_scaled[where k = 47]) (simp_all add: round_half_even_def np_pi_def)

lemma cl_rpk: "rnd ((1718360037987063 / 2 ^ 45) * 1) = 1718360037987063 / 2 ^ 45"
  by (subst rnd_scaled[where k = 47]) (simp_all add: round_half_even_def np_pi_def)

lemma cl_len_const: "rnd (3.14159) = 3537115888337719 / 2 ^ 50"
  by (subst rnd_scaled[where k = 51]) (simp_all add: round_half_even_def np_pi_def)

lemma cl_len: "rnd ((1080863910568919 / 2 ^ 51) * (3537115888337719 / 2 ^ 50)) = 1697815626402105 / 2 ^ 50"
  by (subst rnd_scaled[where k = 52]) (simp_all add: round_half_even_def np_pi_def)

lemma cl_rr: "rnd ((1718360037987063 / 2 ^ 45) * (1697815626402105 / 2 ^ 50)) = 2591223701635093 / 2 ^ 45"
  by (subst rnd_scaled[where k = 46]) (simp_all add: round_half_even_def np_pi_def)

lemma cl_rpt: "rnd ((2591223701635093 / 2 ^ 45) / 1000) = 2653413070474335 / 2 ^ 55"
  by (subst rnd_scaled[where k = 56]) (simp_all add: round_half_even_def np_pi_def)

lemma cl_m_n1: "rnd ((2653413070474335 / 2 ^ 55) * (570940727322889 / 2 ^ 40)) = 5382153703495891 / 2 ^ 47"
  by (subst rnd_scaled[where k = 47]) (simp_all add: round_half_even_def np_pi_def)

lemma cl_res_n1: "rnd ((5382153703495891 / 2 ^ 47) * 1) = 5382153703495891 / 2 ^ 47"
  by (subst rnd_scaled[where k = 47]) (simp_all add: round_half_even_def np_pi_def)

lemma cl_m_n3: "rnd ((2653413070474335 / 2 ^ 55) * (6090034424777483 / 2 ^ 45)) = 3588102468997261 / 2 ^ 48"
  by (subst rnd_scaled[where k = 49]) (simp_all add: round_half_even_def np_pi_def)

lemma cl_res_n3: "rnd ((3588102468997261 / 2 ^ 48) * 3) = 1345538425873973 / 2 ^ 45"
  by (subst rnd_scaled[where k = 47]) (simp_all add: round_half_even_def np_pi_def)

subsection \<open>The electrical model in closed form\<close>

lemma Motor_solve_nonlinear_Inr:
  assumes "max_current params \<noteq> i0" and "max_torque sz \<noteq> 0" and "n_phases params \<noteq> 0"
  shows "Motor_solve_nonlinear params sz i0 =
    (let k_v = (max_current params - i0) / max_torque sz * 30 / pi;
         k_t = 30 / pi * 1 / k_v;
         cur = i0 + torque sz / k_t;
         v = cur * winding_resistance sz + w_operating sz / (k_v * pi / 30)
     in Inr \<lparr>current = cur, phase_current = cur / n_phases params, voltage = v,
           phase_voltage = v * sqrt (3 / 2),
           frequency = w_operating sz / pi * pole_pairs params / 60,
           power_input = power_mech sz + power_windage_loss sz + power_iron_loss sz
                         + cur\<^sup>2 * winding_resistance sz\<rparr>)"
proof -
  let ?kv = "(max_current params - i0) / max_torque sz * 30 / pi"
  let ?kt = "30 / pi * 1 / ?kv"
  have kv: "?kv \<noteq> 0" using assms by simp
  have kt: "?kt \<noteq> 0" using kv by simp
  have kv': "?kv * pi / 30 \<noteq> 0" using kv by simp
  show ?thesis
    unfolding Motor_solve_nonlinear_def Let_def
    by (simp only: fdiv_Some[OF assms(2)] fdiv_Some[OF kv] fdiv_Some[OF kt]
        fdiv_Some[OF assms(3)] fdiv_Some[OF kv'] np_power_two Option.bind.simps
        finite_result_def option.case)
qed

lemma Motor_solve_nonlinear_NonFinite:
  assumes "max_current params = i0 \<or> max_torque sz = 0 \<or> n_phases params = 0"
  shows "Motor_solve_nonlinear params sz i0 = Inl NonFinite"
  using assms
  by (auto simp add: Motor_solve_nonlinear_def finite_result_def fdiv_def np_power_two
        Let_def split: option.splits)

lemma Motor_solve_nonlinear_outputs:
  assumes "max_current params \<noteq> i0" and "max_torque sz \<noteq> 0" and "n_phases params \<noteq> 0"
  shows "\<exists>el. Motor_solve_nonlinear params sz i0 = Inr el
     \<and> current el = i0 + torque sz / ((30 / pi) / ((max_current params - i0) / max_torque sz * 30 / pi))
     \<and> voltage el = current el * winding_resistance sz
           + w_operating sz / ((max_current params - i0) / max_torque sz * 30 / pi * pi / 30)
     \<and> phase_current el = current el / n_phases params
     \<and> phase_voltage el = voltage el * sqrt (3 / 2)
     \<and> frequency el = w_operating sz / pi * pole_pairs params / 60
     \<and> power_input el = power_mech sz + power_windage_loss sz + power_iron_loss sz
                          + (current el)\<^sup>2 * winding_resistance sz"
proof -
  let ?kv = "(max_current params - i0) / max_torque sz * 30 / pi"
  let ?cur = "i0 + torque sz / (30 / pi * 1 / ?kv)"
  let ?v = "?cur * winding_resistance sz + w_operating sz / (?kv * pi / 30)"
  let ?el = "\<lparr>current = ?cur, phase_current = ?cur / n_phases params, voltage = ?v,
           phase_voltage = ?v * sqrt (3 / 2),
           frequency = w_operating sz / pi * pole_pairs params / 60,
           power_input = power_mech sz + power_windage_loss sz + power_iron_loss sz
                         + ?cur\<^sup>2 * winding_resistance sz\<rparr>"
  have el: "Motor_solve_nonlinear params sz i0 = Inr ?el"
    using Motor_solve_nonlinear_Inr[OF assms] by (simp only: Let_def)
  have one: "30 / pi * 1 / ?kv = (30 / pi) / ?kv" by (simp only: mult_1_right)
  show ?thesis
  proof (intro exI conjI)
    show "Motor_solve_nonlinear params sz i0 = Inr ?el" by (rule el)
    show "current ?el = i0 + torque sz / (30 / pi / ?kv)"
      by (simp only: ElectricalState.select_convs one)
  qed (simp_all only: ElectricalState.select_convs)
qed

subsection \<open>The sizing model: what a returned state satisfies, and when it returns\<close>

lemma MotorSize_solve_nonlinear_InrD:
  assumes "MotorSize_solve_nonlinear p u = Inr u'"
  shows "w_base u' = kappa p * (max_rpm p * 2 * pi / 60)"
    and "fdiv (design_power p) (kappa p * (max_rpm p * 2 * pi / 60)) = Some (max_torque u')"
    and "fdiv (design_power p) (max_rpm p * 2 * pi / 60) = Some (torque u')"
    and "power_mech u' = w_operating u * torque u'"
    and "w_operating u' = speed p * 2 * pi / 60"
    and "calculate_iron_loss (d_base u) (speed p) (l_base u) (core_radius_ratio p)
           (pole_pairs p) = Some (power_iron_loss u')"
    and "calculate_copper_loss (d_base u) (max_current p) (n_phases p)
           = Some (winding_resistance u')"
    and "power_windage_loss u' = 0"
    and "\<exists>pt. np_power (max_torque u') 0.7592 = Some pt \<and> D2L u' = 293722 * pt"
    and "\<exists>dl pd. fdiv (D2L u') (L_D_ratio p) = Some dl \<and> np_power dl (1 / 3) = Some pd
           \<and> d_base u' = pd / 1000"
    and "l_base u' = d_base u' * L_D_ratio p"
    and "\<exists>pm. np_power (D2L u') 0.9386912061 = Some pm \<and> mass u' = 0.0000070646 * pm"
  using assms
  unfolding MotorSize_solve_nonlinear_def finite_result_Inr Let_def calculate_windage_loss_def
  by (auto simp add: bind_eq_Some_conv)

lemma calculate_iron_loss_Some:
  assumes "0 \<le> spd * pp"
  shows "calculate_iron_loss d spd l crr pp =
     Some ((0.0275 * 1.22\<^sup>2 * (spd * pp / 60) + 0.0000183 * (1.22 * (spd * pp / 60))\<^sup>2
            + 0.0000277 * (1.22 * (spd * pp / 60)) powr 1.5)
           * (7650 * (pi * l * (d / 2)\<^sup>2 * (1 - crr\<^sup>2))))"
proof -
  have "(0::real) \<le> 1.22 * (spd * pp / 60)" using assms by simp
  then have "np_power (1.22 * (spd * pp / 60)) 1.5 = Some ((1.22 * (spd * pp / 60)) powr 1.5)"
    by (rule np_power_nonneg) simp
  then show ?thesis
    unfolding calculate_iron_loss_def Let_def
    by (simp only: np_power_two Option.bind.simps)
qed

lemma calculate_copper_loss_Some:
  assumes "0 < mc" and "n \<noteq> 0"
  shows "calculate_copper_loss d mc n =
     Some (48.8387296964863 * mc powr (- 1.00112597971171) * (d * 3.14159) / 1000
           * (688.7 * mc * pi * d / mc / n / 2) * n)"
proof -
  have mc: "mc \<noteq> 0" using assms by simp
  show ?thesis
    unfolding calculate_copper_loss_def Let_def
    by (simp only: fdiv_Some[OF mc] fdiv_Some[OF assms(2)] np_power_pos[OF assms(1)]
          Option.bind.simps)
qed

lemma MotorSize_solve_nonlinear_total:
  assumes "0 < max_rpm p" and "0 < kappa p" and "0 \<le> design_power p"
    and "0 < L_D_ratio p" and "0 < max_current p" and "n_phases p \<noteq> 0"
    and "0 \<le> speed p * pole_pairs p"
  shows "\<exists>u'. MotorSize_solve_nonlinear p u = Inr u'"
proof -
  let ?wmax = "max_rpm p * 2 * pi / 60"
  let ?mt = "design_power p / (kappa p * ?wmax)"
  let ?D2L = "293722 * ?mt powr 0.7592"
  have wmax: "?wmax \<noteq> 0" using assms(1) by simp
  have wb: "kappa p * ?wmax \<noteq> 0" using assms(1,2) by simp
  have mt: "0 \<le> ?mt" using assms(1,2,3) by simp
  have p1: "np_power ?mt 0.7592 = Some (?mt powr 0.7592)"
    using mt by (rule np_power_nonneg) simp
  have ld: "L_D_ratio p \<noteq> 0" using assms(4) by simp
  have dl: "0 \<le> ?D2L / L_D_ratio p" using assms(4) by simp
  have p2: "np_power (?D2L / L_D_ratio p) (1 / 3) = Some ((?D2L / L_D_ratio p) powr (1 / 3))"
    using dl by (rule np_power_nonneg) simp
  have d2l: "0 \<le> ?D2L" by simp
  have p3: "np_power ?D2L 0.9386912061 = Some (?D2L powr 0.9386912061)"
    using d2l by (rule np_power_nonneg) simp
  show ?thesis
    unfolding MotorSize_solve_nonlinear_def Let_def finite_result_def
    using wb wmax ld p1 p2 p3
          calculate_iron_loss_Some[OF assms(7), of "d_base u" "l_base u" "core_radius_ratio p"]
          calculate_copper_loss_Some[OF assms(5,6), of "d_base u"]
    by (simp add: fdiv_def)
qed

lemma example_params_total: "\<exists>u'. MotorSize_solve_nonlinear example_params u = Inr u'"
  by (rule MotorSize_solve_nonlinear_total) (simp_all add: example_params_def)

subsection \<open>Order of the assignments in the sizing model\<close>

text \<open>
  Claim C1: in every evaluation of the sizing model, \<open>power_mech\<close> is \<open>w_operating\<close> times
  \<open>torque\<close>, with \<open>w_operating = speed * 2 * pi / 60\<close> of that same evaluation.

  \<open>MotorSize.solve_nonlinear\<close> assigns \<open>power_mech\<close> one statement before it assigns
  \<open>w_operating\<close>, so the product is taken with the value stored by the evaluation before
  (lemma \<open>MotorSize_solve_nonlinear_InrD\<close>). At the first evaluation, on the example
  parameters, the stored value is 0: \<open>power_mech\<close> is 0, while \<open>w_operating * torque\<close> of
  that evaluation is 83600.
\<close>

theorem MotorSize_power_mech_stale:
  "\<exists>u'. MotorSize_solve_nonlinear example_params MotorSize_init = Inr u'
        \<and> power_mech u' = 0 \<and> w_operating u' * torque u' = 83600"
proof -
  obtain u' where u': "MotorSize_solve_nonlinear example_params MotorSize_init = Inr u'"
    using example_params_total by blast
  have pm: "power_mech u' = 0"
    using MotorSize_solve_nonlinear_InrD(4)[OF u'] by (simp add: MotorSize_init_def)
  have w: "w_operating u' = 1900 * 2 * pi / 60"
    using MotorSize_solve_nonlinear_InrD(5)[OF u'] by (simp add: example_params_def)
  have t: "torque u' = 110000 / (2500 * 2 * pi / 60)"
    using fdiv_SomeD[OF MotorSize_solve_nonlinear_InrD(3)[OF u']]
    by (simp add: example_params_def)
  have "w_operating u' * torque u' = 83600"
    unfolding w t by simp
  with u' pm show ?thesis by blast
qed


text \<open>
  Claim C4: the sizing model is a function of the design parameters alone; two evaluations
  on the same parameters give the same outputs, whatever outputs were stored before, and
  the losses use the \<open>d_base\<close> and \<open>l_base\<close> computed in the same evaluation.

  The first two evaluations on the example parameters differ: \<open>power_mech\<close> is 0 in the
  first and 83600 in the second. The losses of the first evaluation are those of the
  stored defaults \<open>d_base = 0.48\<close> and \<open>l_base = 0.4\<close>, since both losses are computed
  before the block that assigns \<open>d_base\<close> and \<open>l_base\<close>.
\<close>

theorem MotorSize_depends_on_stored_outputs:
  "\<exists>u1 u2. MotorSize_solve_nonlinear example_params MotorSize_init = Inr u1
        \<and> MotorSize_solve_nonlinear example_params u1 = Inr u2
        \<and> power_mech u1 = 0 \<and> power_mech u2 = 83600
        \<and> calculate_iron_loss 0.48 1900 0.4 0.7 6 = Some (power_iron_loss u1)
        \<and> calculate_copper_loss 0.48 450 3 = Some (winding_resistance u1)"
proof -
  obtain u1 where u1: "MotorSize_solve_nonlinear example_params MotorSize_init = Inr u1"
    using example_params_total by blast
  obtain u2 where u2: "MotorSize_solve_nonlinear example_params u1 = Inr u2"
    using example_params_total by blast
  have pm1: "power_mech u1 = 0"
    using MotorSize_solve_nonlinear_InrD(4)[OF u1] by (simp add: MotorSize_init_def)
  have w: "w_operating u1 = 1900 * 2 * pi / 60"
    using MotorSize_solve_nonlinear_InrD(5)[OF u1] by (simp add: example_params_def)
  have t: "torque u2 = 110000 / (2500 * 2 * pi / 60)"
    using fdiv_SomeD[OF MotorSize_solve_nonlinear_InrD(3)[OF u2]]
    by (simp add: example_params_def)
  have pm2: "power_mech u2 = 83600"
    unfolding MotorSize_solve_nonlinear_InrD(4)[OF u2] w t by simp
  have il: "calculate_iron_loss 0.48 1900 0.4 0.7 6 = Some (power_iron_loss u1)"
    using MotorSize_solve_nonlinear_InrD(6)[OF u1]
    by (simp add: MotorSize_init_def example_params_def)
  have wr: "calculate_copper_loss 0.48 450 3 = Some (winding_resistance u1)"
    using MotorSize_solve_nonlinear_InrD(7)[OF u1]
    by (simp add: MotorSize_init_def example_params_def)
  from u1 u2 pm1 pm2 il wr show ?thesis by blast
qed



subsection \<open>The sizing formulas\<close>

lemma np_power_SomeD_pos: "np_power x y = Some v \<Longrightarrow> 0 < x \<Longrightarrow> v = x powr y"
  by (simp add: np_power_def)

lemma np_power_SomeD_frac:
  assumes "np_power x y = Some v" and "0 < y" and "y \<noteq> of_int \<lfloor>y\<rfloor>"
  shows "v = x powr y \<and> 0 \<le> x"
proof -
  consider "0 < x" | "x = 0" | "x < 0" by linarith
  then show ?thesis
  proof cases
    case 1
    with assms(1) show ?thesis by (simp add: np_power_def)
  next
    case 2
    with assms(1,2) show ?thesis by (simp add: np_power_def)
  next
    case 3
    with assms(1,3) show ?thesis by (simp add: np_power_def)
  qed
qed

lemma MotorSize_solve_nonlinear_sizing:
  assumes u': "MotorSize_solve_nonlinear p u = Inr u'"
    and "0 < max_rpm p" and "0 < kappa p" and "0 < design_power p" and "0 < L_D_ratio p"
  shows "max_torque u' = design_power p / (kappa p * (max_rpm p * 2 * pi / 60))"
    and "0 < max_torque u'"
    and "D2L u' = 293722 * max_torque u' powr 0.7592"
    and "0 < D2L u'"
    and "d_base u' = (D2L u' / L_D_ratio p) powr (1 / 3) / 1000"
    and "l_base u' = d_base u' * L_D_ratio p"
    and "mass u' = 0.0000070646 * D2L u' powr 0.9386912061"
proof -
  show mt: "max_torque u' = design_power p / (kappa p * (max_rpm p * 2 * pi / 60))"
    using fdiv_SomeD[OF MotorSize_solve_nonlinear_InrD(2)[OF u']] by simp
  show mtpos: "0 < max_torque u'"
    unfolding mt using assms(2-4) by simp
  obtain pt where pt: "np_power (max_torque u') 0.7592 = Some pt" "D2L u' = 293722 * pt"
    using MotorSize_solve_nonlinear_InrD(9)[OF u'] by blast
  show d2l: "D2L u' = 293722 * max_torque u' powr 0.7592"
    using np_power_SomeD_pos[OF pt(1) mtpos] pt(2) by simp
  show d2lpos: "0 < D2L u'"
    unfolding d2l using mtpos by simp
  obtain dl pd where dl: "fdiv (D2L u') (L_D_ratio p) = Some dl"
    "np_power dl (1 / 3) = Some pd" "d_base u' = pd / 1000"
    using MotorSize_solve_nonlinear_InrD(10)[OF u'] by blast
  have dleq: "dl = D2L u' / L_D_ratio p" using fdiv_SomeD[OF dl(1)] by simp
  have "0 < dl" unfolding dleq using d2lpos assms(5) by simp
  from np_power_SomeD_pos[OF dl(2) this] dl(3) dleq
  show "d_base u' = (D2L u' / L_D_ratio p) powr (1 / 3) / 1000" by simp
  show "l_base u' = d_base u' * L_D_ratio p"
    by (rule MotorSize_solve_nonlinear_InrD(11)[OF u'])
  obtain pm where pm: "np_power (D2L u') 0.9386912061 = Some pm" "mass u' = 0.0000070646 * pm"
    using MotorSize_solve_nonlinear_InrD(12)[OF u'] by blast
  show "mass u' = 0.0000070646 * D2L u' powr 0.9386912061"
    using np_power_SomeD_pos[OF pm(1) d2lpos] pm(2) by simp
qed

text \<open>
  Claim C6: in every evaluation of the sizing model,
  \<open>D2L = 293722.0 * max_torque ^ 0.7592\<close>,
  \<open>d_base = (D2L / L_D_ratio) ^ (1/3) / 1000\<close>, \<open>l_base = d_base * L_D_ratio\<close> and
  \<open>mass = 0.0000070646 * D2L ^ 0.9386912061\<close>, with these constants.

  Every evaluation that returns a state, from any parameters and any stored outputs,
  returns one whose four outputs satisfy the four equations (real powers); and for
  positive design parameters the evaluation returns a state.
\<close>

theorem MotorSize_sizing_formulas:
  "(\<forall>u'. MotorSize_solve_nonlinear p u = Inr u' \<longrightarrow>
       D2L u' = 293722.0 * max_torque u' powr 0.7592
     \<and> d_base u' = (D2L u' / L_D_ratio p) powr (1 / 3) / 1000
     \<and> l_base u' = d_base u' * L_D_ratio p
     \<and> mass u' = 0.0000070646 * D2L u' powr 0.9386912061)
   \<and> (0 < max_rpm p \<and> 0 < kappa p \<and> 0 < design_power p \<and> 0 < L_D_ratio p
        \<and> 0 < max_current p \<and> 0 < n_phases p \<and> 0 < speed p \<and> 0 < pole_pairs p \<longrightarrow>
       (\<exists>u'. MotorSize_solve_nonlinear p u = Inr u'))"
proof (intro conjI allI impI)
  fix u'
  assume u': "MotorSize_solve_nonlinear p u = Inr u'"
  obtain pt where pt: "np_power (max_torque u') 0.7592 = Some pt" "D2L u' = 293722 * pt"
    using MotorSize_solve_nonlinear_InrD(9)[OF u'] by blast
  have "pt = max_torque u' powr 0.7592"
    using np_power_SomeD_frac[OF pt(1)] by simp
  with pt(2) show "D2L u' = 293722.0 * max_torque u' powr 0.7592" by simp
  obtain dl pd where dl: "fdiv (D2L u') (L_D_ratio p) = Some dl"
    "np_power dl (1 / 3) = Some pd" "d_base u' = pd / 1000"
    using MotorSize_solve_nonlinear_InrD(10)[OF u'] by blast
  have "dl = D2L u' / L_D_ratio p" using fdiv_SomeD[OF dl(1)] by simp
  moreover have "pd = dl powr (1 / 3)"
    using np_power_SomeD_frac[OF dl(2)] by simp
  ultimately show "d_base u' = (D2L u' / L_D_ratio p) powr (1 / 3) / 1000"
    using dl(3) by simp
  show "l_base u' = d_base u' * L_D_ratio p"
    by (rule MotorSize_solve_nonlinear_InrD(11)[OF u'])
  obtain pm where pm: "np_power (D2L u') 0.9386912061 = Some pm" "mass u' = 0.0000070646 * pm"
    using MotorSize_solve_nonlinear_InrD(12)[OF u'] by blast
  have "pm = D2L u' powr 0.9386912061"
    using np_power_SomeD_frac[OF pm(1)] by simp
  with pm(2) show "mass u' = 0.0000070646 * D2L u' powr 0.9386912061" by simp
next
  assume "0 < max_rpm p \<and> 0 < kappa p \<and> 0 < design_power p \<and> 0 < L_D_ratio p
        \<and> 0 < max_current p \<and> 0 < n_phases p \<and> 0 < speed p \<and> 0 < pole_pairs p"
  then show "\<exists>u'. MotorSize_solve_nonlinear p u = Inr u'"
    by (intro MotorSize_solve_nonlinear_total) simp_all
qed

theorem MotorSize_sizing_formulas_witness:
  "\<exists>u'. MotorSize_solve_nonlinear example_params MotorSize_init = Inr u'
     \<and> D2L u' = 293722.0 * max_torque u' powr 0.7592
     \<and> d_base u' = (D2L u' / 0.83) powr (1 / 3) / 1000
     \<and> l_base u' = d_base u' * 0.83
     \<and> mass u' = 0.0000070646 * D2L u' powr 0.9386912061"
proof -
  have pos: "0 < max_rpm example_params \<and> 0 < kappa example_params
      \<and> 0 < design_power example_params \<and> 0 < L_D_ratio example_params
      \<and> 0 < max_current example_params \<and> 0 < n_phases example_params
      \<and> 0 < speed example_params \<and> 0 < pole_pairs example_params"
    by (simp add: example_params_def)
  with MotorSize_sizing_formulas[of example_params MotorSize_init]
  obtain u' where u': "MotorSize_solve_nonlinear example_params MotorSize_init = Inr u'"
    by blast
  with MotorSize_sizing_formulas[of example_params MotorSize_init]
  have "D2L u' = 293722.0 * max_torque u' powr 0.7592
     \<and> d_base u' = (D2L u' / L_D_ratio example_params) powr (1 / 3) / 1000
     \<and> l_base u' = d_base u' * L_D_ratio example_params
     \<and> mass u' = 0.0000070646 * D2L u' powr 0.9386912061"
    by blast
  with u' show ?thesis by (auto simp add: example_params_def)
qed

text \<open>
  Claim C9: of two parameter sets that differ only in \<open>design_power\<close>, all parameters
  positive, the one with the strictly larger \<open>design_power\<close> gets the strictly larger
  \<open>max_torque\<close> and the strictly larger \<open>mass\<close>.

  In doubles this fails. With the other example parameters, \<open>design_power = 110041.0\<close>
  and the next double above it, \<open>110041 + 1 / 2 ^ 36\<close>, give the same \<open>max_torque\<close>,
  \<open>840.6513164532123\<close>: the two quotients round to one double. \<open>D2L\<close> and \<open>mass\<close>
  are computed from \<open>max_torque\<close> alone, so they are the same too.
\<close>

theorem MotorSize_max_torque_double_collapse:
  "MotorSize_max_torque_double (example_params\<lparr>design_power := 110041\<rparr>)
     = Some (3697223589382035 / 2 ^ 42)
   \<and> MotorSize_max_torque_double (example_params\<lparr>design_power := 110041 + 1 / 2 ^ 36\<rparr>)
     = Some (3697223589382035 / 2 ^ 42)"
  by (intro conjI MotorSize_max_torque_double_at) (simp_all add: example_params_def)

text \<open>
  Claim C9 as the code has it: in exact real arithmetic, of two parameter sets that
  differ only in \<open>design_power\<close>, all parameters positive, the one with the strictly
  larger \<open>design_power\<close> gets the strictly larger \<open>max_torque\<close> and the strictly larger
  \<open>mass\<close>; both evaluations return, from any stored outputs \<open>u1\<close> and \<open>u2\<close>. (In
  doubles the strict order can fail, as shown above.)
\<close>

theorem MotorSize_monotone_in_design_power:
  assumes "0 < max_rpm p" and "0 < kappa p" and "0 < design_power p"
    and "0 < L_D_ratio p" and "0 < max_current p" and "0 < n_phases p"
    and "0 < speed p" and "0 < pole_pairs p"
    and "design_power p < dp'"
  shows "\<exists>s1 s2. MotorSize_solve_nonlinear p u1 = Inr s1
     \<and> MotorSize_solve_nonlinear (p\<lparr>design_power := dp'\<rparr>) u2 = Inr s2
     \<and> max_torque s1 < max_torque s2 \<and> mass s1 < mass s2"
proof -
  let ?p' = "p\<lparr>design_power := dp'\<rparr>"
  have dp': "0 < design_power ?p'" using assms(3,9) by simp
  have "\<exists>u'. MotorSize_solve_nonlinear p u1 = Inr u'"
    using assms by (intro MotorSize_solve_nonlinear_total) simp_all
  then obtain s1 where s1: "MotorSize_solve_nonlinear p u1 = Inr s1" by blast
  have "\<exists>u'. MotorSize_solve_nonlinear ?p' u2 = Inr u'"
    using assms by (intro MotorSize_solve_nonlinear_total) simp_all
  then obtain s2 where s2: "MotorSize_solve_nonlinear ?p' u2 = Inr s2" by blast
  note a = MotorSize_solve_nonlinear_sizing[OF s1 assms(1-4)]
  have "0 < max_rpm ?p'" "0 < kappa ?p'" "0 < L_D_ratio ?p'" using assms by simp_all
  note b = MotorSize_solve_nonlinear_sizing[OF s2 this(1,2) dp' this(3)]
  have wb: "0 < kappa p * (max_rpm p * 2 * pi / 60)" using assms(1,2) by simp
  have mt: "max_torque s1 < max_torque s2"
    unfolding a(1) b(1) using assms(9) wb by (simp add: divide_strict_right_mono)
  have "max_torque s1 powr 0.7592 < max_torque s2 powr 0.7592"
    using mt a(2) by (intro powr_less_mono2) simp_all
  then have d: "D2L s1 < D2L s2" unfolding a(3) b(3) by simp
  have "D2L s1 powr 0.9386912061 < D2L s2 powr 0.9386912061"
    using d a(4) by (intro powr_less_mono2) simp_all
  then have "mass s1 < mass s2" unfolding a(7) b(7) by simp
  with s1 s2 mt show ?thesis by blast
qed

theorem MotorSize_monotone_in_design_power_witness:
  "\<exists>s1 s2. MotorSize_solve_nonlinear example_params MotorSize_init = Inr s1
     \<and> MotorSize_solve_nonlinear (example_params\<lparr>design_power := 120000\<rparr>) MotorSize_init
         = Inr s2
     \<and> max_torque s1 < max_torque s2 \<and> mass s1 < mass s2"
  by (rule MotorSize_monotone_in_design_power) (simp_all add: example_params_def)

subsection \<open>The copper loss\<close>

text \<open>
  Claim C10: the winding resistance that \<open>calculate_copper_loss\<close> returns does not depend
  on \<open>n_phases\<close>: for \<open>d_base > 0\<close>, \<open>max_current > 0\<close> and two positive phase counts
  it returns the same value, since the division by \<open>n_phases\<close> in the coil-turn count
  cancels exactly against the final multiplication.

  In doubles the division and the multiplication both round and do not cancel. At
  \<open>d_base = 0.48\<close> and \<open>max_current = 1.0\<close> the function returns
  \<open>38.242502167633255\<close> for one phase and \<open>38.24250216763326\<close>, the next double, for
  three.
\<close>

theorem calculate_copper_loss_double_n_phases:
  "calculate_copper_loss_double 1 (rnd 0.48) 1 1 = Some (5382153703495891 / 2 ^ 47)
   \<and> calculate_copper_loss_double 1 (rnd 0.48) 1 3 = Some (1345538425873973 / 2 ^ 45)
   \<and> (5382153703495891 / 2 ^ 47 :: real) < 1345538425873973 / 2 ^ 45"
proof (intro conjI)
  have dv1: "ddiv (570940727322889 / 2 ^ 39) 1 = Some (rnd ((570940727322889 / 2 ^ 39) / 1))"
    by (rule ddiv_Some) simp
  have dv3: "ddiv (570940727322889 / 2 ^ 39) 3 = Some (rnd ((570940727322889 / 2 ^ 39) / 3))"
    by (rule ddiv_Some) simp
  show "calculate_copper_loss_double 1 (rnd 0.48) 1 1 = Some (5382153703495891 / 2 ^ 47)"
    unfolding calculate_copper_loss_double_def Let_def
    by (simp only: cl_d cl_As_const cl_As cl_As_pi cl_As_pi_d cl_q1 cl_rpk_const cl_rpk cl_len_const cl_len cl_rr cl_rpt dv1 Option.bind.simps
          cl_turns_n1 cl_m_n1 cl_res_n1)
  show "calculate_copper_loss_double 1 (rnd 0.48) 1 3 = Some (1345538425873973 / 2 ^ 45)"
    unfolding calculate_copper_loss_double_def Let_def
    by (simp only: cl_d cl_As_const cl_As cl_As_pi cl_As_pi_d cl_q1 cl_rpk_const cl_rpk cl_len_const cl_len cl_rr cl_rpt dv1 dv3 Option.bind.simps
          cl_q2_n3 cl_turns_n3 cl_m_n3 cl_res_n3)
  show "(5382153703495891 / 2 ^ 47 :: real) < 1345538425873973 / 2 ^ 45"
    by simp
qed

text \<open>
  Claim C10 as the code has it: in exact real arithmetic the winding resistance of
  \<open>calculate_copper_loss\<close> does not depend on \<open>n_phases\<close>: for \<open>d_base > 0\<close>,
  \<open>max_current > 0\<close> and two positive phase counts the value is the same, since the
  division by \<open>n_phases\<close> cancels against the final multiplication. (In doubles the
  two values can differ, as shown above.)
\<close>

theorem calculate_copper_loss_n_phases:
  assumes "0 < d" and "0 < mc" and "0 < n1" and "0 < n2"
  shows "\<exists>r. calculate_copper_loss d mc n1 = Some r \<and> calculate_copper_loss d mc n2 = Some r"
proof -
  have n1: "n1 \<noteq> 0" and n2: "n2 \<noteq> 0" using assms by simp_all
  have "48.8387296964863 * mc powr (- 1.00112597971171) * (d * 3.14159) / 1000
           * (688.7 * mc * pi * d / mc / n1 / 2) * n1
      = 48.8387296964863 * mc powr (- 1.00112597971171) * (d * 3.14159) / 1000
           * (688.7 * mc * pi * d / mc / n2 / 2) * n2"
    using n1 n2 by simp
  then show ?thesis
    unfolding calculate_copper_loss_Some[OF assms(2) n1] calculate_copper_loss_Some[OF assms(2) n2]
    by simp
qed

theorem calculate_copper_loss_n_phases_witness:
  "\<exists>r. calculate_copper_loss 0.48 450 3 = Some r \<and> calculate_copper_loss 0.48 450 1 = Some r"
  by (rule calculate_copper_loss_n_phases) simp_all

subsection \<open>The electrical model\<close>

text \<open>
  Claim C5: for every admissible input the electrical model computes
  \<open>k_v = (max_current - I0) / max_torque * 30 / pi\<close> and \<open>k_t = (30 / pi) / k_v\<close>, then
  \<open>current = I0 + torque / k_t\<close>,
  \<open>voltage = current * winding_resistance + w_operating / (k_v * pi / 30)\<close>,
  \<open>phase_current = current / n_phases\<close>, \<open>phase_voltage = voltage * sqrt (3/2)\<close>,
  \<open>frequency = w_operating / pi * pole_pairs / 60\<close> and
  \<open>power_input = power_mech + power_windage_loss + power_iron_loss
     + current\<^sup>2 * winding_resistance\<close>.

  The evaluation returns a state wherever \<open>max_current\<close> differs from \<open>I0\<close> and
  \<open>max_torque\<close> and \<open>n_phases\<close> are not zero, which covers the admissible inputs
  (\<open>I0 < max_current\<close>, positive \<open>max_torque\<close> and \<open>n_phases\<close>), and the state satisfies
  the equations.
\<close>

theorem Motor_solve_nonlinear_formulas:
  assumes "max_current params \<noteq> i0" and "max_torque sz \<noteq> 0" and "n_phases params \<noteq> 0"
  shows "\<exists>el. Motor_solve_nonlinear params sz i0 = Inr el \<and>
     (let k_v = (max_current params - i0) / max_torque sz * 30 / pi;
          k_t = (30 / pi) / k_v
      in current el = i0 + torque sz / k_t
       \<and> voltage el = current el * winding_resistance sz + w_operating sz / (k_v * pi / 30)
       \<and> phase_current el = current el / n_phases params
       \<and> phase_voltage el = voltage el * sqrt (3 / 2)
       \<and> frequency el = w_operating sz / pi * pole_pairs params / 60
       \<and> power_input el = power_mech sz + power_windage_loss sz + power_iron_loss sz
                            + (current el)\<^sup>2 * winding_resistance sz)"
proof -
  let ?kv = "(max_current params - i0) / max_torque sz * 30 / pi"
  let ?cur = "i0 + torque sz / (30 / pi * 1 / ?kv)"
  let ?v = "?cur * winding_resistance sz + w_operating sz / (?kv * pi / 30)"
  let ?el = "\<lparr>current = ?cur, phase_current = ?cur / n_phases params, voltage = ?v,
           phase_voltage = ?v * sqrt (3 / 2),
           frequency = w_operating sz / pi * pole_pairs params / 60,
           power_input = power_mech sz + power_windage_loss sz + power_iron_loss sz
                         + ?cur\<^sup>2 * winding_resistance sz\<rparr>"
  have el: "Motor_solve_nonlinear params sz i0 = Inr ?el"
    using Motor_solve_nonlinear_Inr[OF assms] by (simp only: Let_def)
  have one: "30 / pi * 1 / ?kv = (30 / pi) / ?kv" by (simp only: mult_1_right)
  show ?thesis
    unfolding Let_def
  proof (intro exI conjI)
    show "Motor_solve_nonlinear params sz i0 = Inr ?el" by (rule el)
    show "current ?el = i0 + torque sz / (30 / pi / ?kv)"
      by (simp only: ElectricalState.select_convs one)
  qed (simp_all only: ElectricalState.select_convs)
qed

theorem Motor_solve_nonlinear_formulas_witness:
  "\<exists>el. Motor_solve_nonlinear example_params
           (MotorSize_init\<lparr>max_torque := 840, torque := 420, w_operating := 200,
              winding_resistance := 0.01\<rparr>) 40 = Inr el
       \<and> current el = 245 \<and> phase_current el = 245 / 3
       \<and> frequency el = 20 / pi
       \<and> power_input el = 600.25"
proof -
  let ?sz = "MotorSize_init\<lparr>max_torque := 840, torque := 420, w_operating := 200,
              winding_resistance := 0.01\<rparr>"
  have h1: "max_current example_params \<noteq> 40" by (simp add: example_params_def)
  have h2: "max_torque ?sz \<noteq> 0" by simp
  have h3: "n_phases example_params \<noteq> 0" by (simp add: example_params_def)
  from Motor_solve_nonlinear_formulas[OF h1 h2 h3]
  obtain el where el: "Motor_solve_nonlinear example_params ?sz 40 = Inr el"
    and f: "current el = 40 + torque ?sz / ((30 / pi) / ((max_current example_params - 40) / max_torque ?sz * 30 / pi))"
       "phase_current el = current el / n_phases example_params"
       "frequency el = w_operating ?sz / pi * pole_pairs example_params / 60"
       "power_input el = power_mech ?sz + power_windage_loss ?sz + power_iron_loss ?sz
                            + (current el)\<^sup>2 * winding_resistance ?sz"
    unfolding Let_def by blast
  have c: "current el = 245" unfolding f(1) by (simp add: example_params_def)
  have "phase_current el = 245 / 3" unfolding f(2) c by (simp add: example_params_def)
  moreover have "frequency el = 20 / pi" unfolding f(3) by (simp add: example_params_def)
  moreover have "power_input el = 600.25"
    unfolding f(4) c by (simp add: MotorSize_init_def)
  ultimately show ?thesis using el c by blast
qed

subsection \<open>Inputs the specification calls invalid\<close>

text \<open>
  Claim C2: wherever \<open>max_current \<le> I0\<close>, evaluating the electrical model raises a
  \<open>DomainError\<close> instead of returning a state; in particular at \<open>max_current = 1.0\<close> and
  the default guess \<open>I0 = 40.0\<close>.

  \<open>Motor.solve_nonlinear\<close> compares nothing and raises nothing. With \<open>max_current = 1\<close>
  in the example parameters, the sizing model run on the initial outputs and the
  electrical model run on its result at \<open>I0 = 40\<close> return a state, whose current is
  20.5.
\<close>

theorem Motor_returns_below_I0:
  "map_sum id (current \<circ> fst \<circ> snd)
     (MotorGroup_evaluate (example_params\<lparr>max_current := 1\<rparr>) MotorSize_init
        MotorBalance_I0_init) = Inr 20.5"
proof -
  let ?p = "example_params\<lparr>max_current := 1\<rparr>"
  have "\<exists>u'. MotorSize_solve_nonlinear ?p MotorSize_init = Inr u'"
    by (rule MotorSize_solve_nonlinear_total) (simp_all add: example_params_def)
  then obtain sz where sz: "MotorSize_solve_nonlinear ?p MotorSize_init = Inr sz" by blast
  have mt: "max_torque sz = 110000 / (0.5 * (2500 * 2 * pi / 60))"
    using fdiv_SomeD[OF MotorSize_solve_nonlinear_InrD(2)[OF sz]]
    by (simp add: example_params_def)
  have tq: "torque sz = 110000 / (2500 * 2 * pi / 60)"
    using fdiv_SomeD[OF MotorSize_solve_nonlinear_InrD(3)[OF sz]]
    by (simp add: example_params_def)
  have mt0: "max_torque sz \<noteq> 0" unfolding mt by simp
  have "Motor_solve_nonlinear ?p sz 40 =
    (let k_v = (max_current ?p - 40) / max_torque sz * 30 / pi;
         k_t = 30 / pi * 1 / k_v;
         cur = 40 + torque sz / k_t;
         v = cur * winding_resistance sz + w_operating sz / (k_v * pi / 30)
     in Inr \<lparr>current = cur, phase_current = cur / n_phases ?p, voltage = v,
           phase_voltage = v * sqrt (3 / 2),
           frequency = w_operating sz / pi * pole_pairs ?p / 60,
           power_input = power_mech sz + power_windage_loss sz + power_iron_loss sz
                         + cur\<^sup>2 * winding_resistance sz\<rparr>)"
    by (rule Motor_solve_nonlinear_Inr) (simp_all add: example_params_def mt0)
  then obtain el where el: "Motor_solve_nonlinear ?p sz 40 = Inr el"
    and cur: "current el = 40 + torque sz / (30 / pi * 1 / ((max_current ?p - 40) / max_torque sz * 30 / pi))"
    by (simp add: Let_def)
  have "current el = 20.5"
    unfolding cur mt tq by (simp add: example_params_def)
  then show ?thesis
    by (simp add: MotorGroup_evaluate_def sz el MotorBalance_I0_init_def)
qed

text \<open>
  Claim C2 as the code has it: wherever \<open>max_current \<le> I0\<close> the electrical model raises
  no \<open>DomainError\<close>. Below \<open>I0\<close>, with a positive \<open>max_torque\<close> and \<open>n_phases\<close> not
  zero, \<open>k_v = (max_current - I0) / max_torque * 30 / pi\<close> is negative and the model
  returns a state whose six outputs are those of the formulas of the electrical model
  with that \<open>k_v\<close>.
\<close>

theorem Motor_no_guard:
  assumes "max_current params \<le> i0"
  shows "Motor_solve_nonlinear params sz i0 \<noteq> Inl DomainError
       \<and> (max_current params < i0 \<and> 0 < max_torque sz \<and> n_phases params \<noteq> 0 \<longrightarrow>
           (let k_v = (max_current params - i0) / max_torque sz * 30 / pi;
                k_t = (30 / pi) / k_v
            in k_v < 0
             \<and> (\<exists>el. Motor_solve_nonlinear params sz i0 = Inr el
                 \<and> current el = i0 + torque sz / k_t
                 \<and> voltage el = current el * winding_resistance sz
                       + w_operating sz / (k_v * pi / 30)
                 \<and> phase_current el = current el / n_phases params
                 \<and> phase_voltage el = voltage el * sqrt (3 / 2)
                 \<and> frequency el = w_operating sz / pi * pole_pairs params / 60
                 \<and> power_input el = power_mech sz + power_windage_loss sz
                       + power_iron_loss sz + (current el)\<^sup>2 * winding_resistance sz)))"
proof (intro conjI impI)
  show "Motor_solve_nonlinear params sz i0 \<noteq> Inl DomainError"
    unfolding Motor_solve_nonlinear_def by (rule finite_result_not_DomainError)
next
  assume a: "max_current params < i0 \<and> 0 < max_torque sz \<and> n_phases params \<noteq> 0"
  then have ne: "max_current params \<noteq> i0" and mt: "max_torque sz \<noteq> 0"
    and n: "n_phases params \<noteq> 0"
    by simp_all
  have "(max_current params - i0) / max_torque sz < 0"
    using a by (intro divide_neg_pos) simp_all
  then have "(max_current params - i0) / max_torque sz * 30 < 0"
    by (rule mult_neg_pos) simp
  then have kv: "(max_current params - i0) / max_torque sz * 30 / pi < 0"
    by (rule divide_neg_pos) simp
  from kv Motor_solve_nonlinear_outputs[OF ne mt n]
  show "let k_v = (max_current params - i0) / max_torque sz * 30 / pi;
            k_t = (30 / pi) / k_v
        in k_v < 0
         \<and> (\<exists>el. Motor_solve_nonlinear params sz i0 = Inr el
             \<and> current el = i0 + torque sz / k_t
             \<and> voltage el = current el * winding_resistance sz
                   + w_operating sz / (k_v * pi / 30)
             \<and> phase_current el = current el / n_phases params
             \<and> phase_voltage el = voltage el * sqrt (3 / 2)
             \<and> frequency el = w_operating sz / pi * pole_pairs params / 60
             \<and> power_input el = power_mech sz + power_windage_loss sz
                   + power_iron_loss sz + (current el)\<^sup>2 * winding_resistance sz)"
    unfolding Let_def by blast
qed

theorem Motor_no_guard_witness:
  "max_current (example_params\<lparr>max_current := 1\<rparr>) \<le> 40
   \<and> (\<exists>el. Motor_solve_nonlinear (example_params\<lparr>max_current := 1\<rparr>)
              (MotorSize_init\<lparr>max_torque := 840, torque := 420\<rparr>) 40 = Inr el
          \<and> current el = 20.5 \<and> phase_current el = 20.5 / 3 \<and> voltage el = 0)"
proof -
  let ?p = "example_params\<lparr>max_current := 1\<rparr>"
  let ?sz = "MotorSize_init\<lparr>max_torque := 840, torque := 420\<rparr>"
  have h: "max_current ?p \<le> 40" by simp
  have a: "max_current ?p < 40 \<and> 0 < max_torque ?sz \<and> n_phases ?p \<noteq> 0"
    by (simp add: example_params_def)
  from Motor_no_guard[OF h, of ?sz] a
  obtain el where el: "Motor_solve_nonlinear ?p ?sz 40 = Inr el"
    and c: "current el = 40 + torque ?sz / ((30 / pi) / ((max_current ?p - 40) / max_torque ?sz * 30 / pi))"
    and v: "voltage el = current el * winding_resistance ?sz
               + w_operating ?sz / ((max_current ?p - 40) / max_torque ?sz * 30 / pi * pi / 30)"
    and pc: "phase_current el = current el / n_phases ?p"
    unfolding Let_def by blast
  have c': "current el = 20.5" unfolding c by simp
  have "phase_current el = 20.5 / 3" unfolding pc c' by (simp add: example_params_def)
  moreover have "voltage el = 0" unfolding v c' by (simp add: MotorSize_init_def)
  ultimately show ?thesis using h el c' by blast
qed

text \<open>
  Claim C7: for every parameter set with \<open>core_radius_ratio\<close> at or above 1, model
  evaluation raises a \<open>DomainError\<close>; the value is never accepted and never gives a
  numeric sizing state.

  \<open>calculate_iron_loss\<close> uses \<open>1 - core_radius_ratio\<^sup>2\<close> as it comes. With
  \<open>core_radius_ratio = 1\<close> in the example parameters the first evaluation returns a
  state, whose \<open>power_iron_loss\<close> is 0.
\<close>

theorem MotorSize_accepts_core_radius_ratio_one:
  "map_sum id power_iron_loss
     (MotorSize_solve_nonlinear (example_params\<lparr>core_radius_ratio := 1\<rparr>) MotorSize_init)
   = Inr 0"
proof -
  let ?p = "example_params\<lparr>core_radius_ratio := 1\<rparr>"
  have "\<exists>u'. MotorSize_solve_nonlinear ?p MotorSize_init = Inr u'"
    by (rule MotorSize_solve_nonlinear_total) (simp_all add: example_params_def)
  then obtain u' where u': "MotorSize_solve_nonlinear ?p MotorSize_init = Inr u'" by blast
  have "calculate_iron_loss (d_base MotorSize_init) (speed ?p) (l_base MotorSize_init) 1
          (pole_pairs ?p) = Some (power_iron_loss u')"
    using MotorSize_solve_nonlinear_InrD(6)[OF u'] by simp
  moreover have "0 \<le> speed ?p * pole_pairs ?p"
    by (simp add: example_params_def)
  ultimately have "power_iron_loss u' = 0"
    by (simp add: calculate_iron_loss_Some)
  with u' show ?thesis by simp
qed

text \<open>
  Claim C7 as the code has it: for positive design parameters with \<open>core_radius_ratio\<close>
  at or above 1 the evaluation raises nothing and returns a numeric state; its
  \<open>power_iron_loss\<close> is 0 at ratio 1, and is not positive when the stored \<open>l_base\<close> is
  not negative.
\<close>

theorem MotorSize_no_core_radius_guard:
  assumes "1 \<le> core_radius_ratio p"
    and "0 < max_rpm p" and "0 < kappa p" and "0 < design_power p"
    and "0 < L_D_ratio p" and "0 < max_current p" and "0 < n_phases p"
    and "0 < speed p" and "0 < pole_pairs p"
  shows "\<exists>u'. MotorSize_solve_nonlinear p u = Inr u'
           \<and> (core_radius_ratio p = 1 \<longrightarrow> power_iron_loss u' = 0)
           \<and> (0 \<le> l_base u \<longrightarrow> power_iron_loss u' \<le> 0)"
proof -
  have sp: "0 \<le> speed p * pole_pairs p" using assms(8,9) by simp
  have "\<exists>u'. MotorSize_solve_nonlinear p u = Inr u'"
    using assms(2-7) sp by (intro MotorSize_solve_nonlinear_total) simp_all
  then obtain u' where u': "MotorSize_solve_nonlinear p u = Inr u'" by blast
  let ?f = "speed p * pole_pairs p / 60"
  let ?k = "0.0275 * 1.22\<^sup>2 * ?f + 0.0000183 * (1.22 * ?f)\<^sup>2 + 0.0000277 * (1.22 * ?f) powr 1.5"
  let ?m = "7650 * (pi * l_base u * (d_base u / 2)\<^sup>2 * (1 - (core_radius_ratio p)\<^sup>2))"
  have il: "power_iron_loss u' = ?k * ?m"
    using MotorSize_solve_nonlinear_InrD(6)[OF u'] calculate_iron_loss_Some[OF sp]
    by simp
  have one: "power_iron_loss u' = 0" if "core_radius_ratio p = 1"
    unfolding il using that by simp
  have neg: "power_iron_loss u' \<le> 0" if l: "0 \<le> l_base u"
  proof -
    have "0 \<le> ?k" using sp by (intro add_nonneg_nonneg mult_nonneg_nonneg) simp_all
    moreover have "1 \<le> (core_radius_ratio p)\<^sup>2"
      using assms(1) by simp
    then have "1 - (core_radius_ratio p)\<^sup>2 \<le> 0" by simp
    then have vol: "pi * l_base u * (d_base u / 2)\<^sup>2 * (1 - (core_radius_ratio p)\<^sup>2) \<le> 0"
      using l by (intro mult_nonneg_nonpos mult_nonneg_nonneg) simp_all
    have "?m \<le> 0" by (rule mult_nonneg_nonpos[OF _ vol]) simp
    ultimately show ?thesis unfolding il by (rule mult_nonneg_nonpos)
  qed
  from u' one neg show ?thesis by blast
qed

theorem MotorSize_no_core_radius_guard_witness:
  "1 \<le> core_radius_ratio (example_params\<lparr>core_radius_ratio := 2\<rparr>)
   \<and> (\<exists>u'. MotorSize_solve_nonlinear (example_params\<lparr>core_radius_ratio := 2\<rparr>)
               MotorSize_init = Inr u'
           \<and> power_iron_loss u' \<le> 0)"
proof -
  let ?p = "example_params\<lparr>core_radius_ratio := 2\<rparr>"
  have h: "1 \<le> core_radius_ratio ?p" by simp
  have "\<exists>u'. MotorSize_solve_nonlinear ?p MotorSize_init = Inr u'
           \<and> (core_radius_ratio ?p = 1 \<longrightarrow> power_iron_loss u' = 0)
           \<and> (0 \<le> l_base MotorSize_init \<longrightarrow> power_iron_loss u' \<le> 0)"
    by (rule MotorSize_no_core_radius_guard[OF h]) (simp_all add: example_params_def)
  then show ?thesis by (simp add: MotorSize_init_def)
qed

subsection \<open>The coupled solver\<close>

lemma CoupledSolver_iterate_converged_now:
  assumes "eval m (I0 st) = Inr (m', r)" and "\<bar>r\<bar> \<le> tol"
  shows "CoupledSolver_iterate cap tol lcap eval step m st
           = Inr (m', st\<lparr>residual := r, converged := True\<rparr>)"
  using assms by (subst CoupledSolver_iterate.simps) simp

lemma CoupledSolver_iterate_Inr:
  assumes "CoupledSolver_iterate cap tol lcap eval step m st = Inr (m', st')"
  shows "converged st' \<and> \<bar>residual st'\<bar> \<le> tol
       \<and> (\<exists>m0. eval m0 (I0 st') = Inr (m', residual st'))
       \<and> (iteration st \<le> cap \<longrightarrow> iteration st' \<le> cap)
       \<and> iteration st \<le> iteration st'"
  using assms
proof (induction cap tol lcap eval step m st rule: CoupledSolver_iterate.induct)
  case (1 cap tol lcap eval step m st)
  show ?case
  proof (cases "eval m (I0 st)")
    case (Inl e)
    with "1.prems" show ?thesis
      by (subst (asm) CoupledSolver_iterate.simps) simp
  next
    case (Inr mr)
    obtain m1 r where mr: "mr = (m1, r)" by (cases mr)
    note ev = Inr[unfolded mr]
    show ?thesis
    proof (cases "\<bar>r\<bar> \<le> tol")
      case True
      have "CoupledSolver_iterate cap tol lcap eval step m st
              = Inr (m1, st\<lparr>residual := r, converged := True\<rparr>)"
        using ev True by (rule CoupledSolver_iterate_converged_now)
      with "1.prems"
      have "m' = m1" and "st' = st\<lparr>residual := r, converged := True\<rparr>" by simp_all
      with ev True show ?thesis by auto
    next
      case False
      show ?thesis
      proof (cases "cap \<le> iteration st")
        case True
        with "1.prems" ev False show ?thesis
          by (subst (asm) CoupledSolver_iterate.simps) simp
      next
        case nc: False
        show ?thesis
        proof (cases "step lcap m1 (I0 st) r")
          case None
          with "1.prems" ev False nc show ?thesis
            by (subst (asm) CoupledSolver_iterate.simps) simp
        next
          case (Some i')
          let ?st = "st\<lparr>I0 := i', residual := r, iteration := Suc (iteration st)\<rparr>"
          from "1.prems" ev False nc Some
          have rec: "CoupledSolver_iterate cap tol lcap eval step m1 ?st = Inr (m', st')"
            by (subst (asm) CoupledSolver_iterate.simps) simp
          have "converged st' \<and> \<bar>residual st'\<bar> \<le> tol
               \<and> (\<exists>m0. eval m0 (I0 st') = Inr (m', residual st'))
               \<and> (iteration ?st \<le> cap \<longrightarrow> iteration st' \<le> cap)
               \<and> iteration ?st \<le> iteration st'"
            using "1.IH"[OF ev refl False nc Some rec] .
          with nc show ?thesis by simp
        qed
      qed
    qed
  qed
qed



lemma CoupledSolver_iterate_never_meeting:
  assumes ev: "\<And>m i. \<exists>m' r. eval m i = Inr (m', r) \<and> tol < \<bar>r\<bar>"
    and st: "\<And>c m i r. step c m i r \<noteq> None"
  shows "\<exists>i r. CoupledSolver_iterate cap tol lcap eval step m st
                 = Inl (NonConvergenceError i r)"
  using assms
proof (induction cap tol lcap eval step m st rule: CoupledSolver_iterate.induct)
  case (1 cap tol lcap eval step m st)
  obtain m1 r1 where e1: "eval m (I0 st) = Inr (m1, r1)" and r1: "tol < \<bar>r1\<bar>"
    using "1.prems"(1) by blast
  have nt: "\<not> \<bar>r1\<bar> \<le> tol" using r1 by simp
  show ?case
  proof (cases "cap \<le> iteration st")
    case True
    with e1 nt show ?thesis
      by (subst CoupledSolver_iterate.simps) simp
  next
    case nc: False
    obtain i' where Some: "step lcap m1 (I0 st) r1 = Some i'"
      using "1.prems"(2)[of lcap m1 "I0 st" r1] by (cases "step lcap m1 (I0 st) r1") auto
    let ?st = "st\<lparr>I0 := i', residual := r1, iteration := Suc (iteration st)\<rparr>"
    have "\<exists>i r. CoupledSolver_iterate cap tol lcap eval step m1 ?st
                 = Inl (NonConvergenceError i r)"
      using "1.IH"[OF e1 refl nt nc Some "1.prems"] .
    with e1 nt nc Some show ?thesis
      by (subst CoupledSolver_iterate.simps) simp
  qed
qed

lemma CoupledSolver_iterate_linear_cap:
  "CoupledSolver_iterate cap tol lcap eval step m st
     = CoupledSolver_iterate cap tol lcap' eval (\<lambda>c. step lcap) m st"
proof (induction cap tol lcap eval step m st rule: CoupledSolver_iterate.induct)
  case (1 cap tol lcap eval step m st)
  show ?case
    apply (subst CoupledSolver_iterate.simps)
    apply (subst (2) CoupledSolver_iterate.simps)
    apply (auto split: sum.splits option.splits simp: "1.IH")
    done
qed


lemma CoupledSolver_solve_Inr:
  assumes "CoupledSolver_solve eval step m = Inr (m', st')"
  shows "converged st' \<and> \<bar>residual st'\<bar> \<le> MotorGroup_nl_atol
       \<and> (\<exists>m0. eval m0 (I0 st') = Inr (m', residual st'))
       \<and> iteration st' \<le> MotorGroup_nl_maxiter"
  using CoupledSolver_iterate_Inr[OF assms[unfolded CoupledSolver_solve_def]]
  by (simp add: CoupledSolver_init_def)

lemma CoupledSolver_iterate_at_cap:
  assumes "eval m (I0 st) = Inr (m', r)" and "tol < \<bar>r\<bar>" and "cap \<le> iteration st"
  shows "CoupledSolver_iterate cap tol lcap eval step m st
           = Inl (NonConvergenceError (I0 st) r)"
  using assms by (subst CoupledSolver_iterate.simps) simp














text \<open>
  Claim C8: the solver starts the unknown \<open>I0\<close> at 40.0 with iteration count 0, bounds
  the Newton iteration by a cap of 1000 and the inner linear solve by a cap of 100, and
  reports exceeding the Newton cap without meeting the tolerance as a non-convergence
  error, never as a silent partial result.

  The initial value and the two caps are those of \<open>MotorBalance.__init__\<close> and
  \<open>MotorGroup.__init__\<close>. For the solver of the specification: the step is only ever
  asked with the linear cap 100; a solve that returns is converged, within the tolerance,
  after at most 1000 steps; a round at the cap whose residual is above the tolerance ends
  in the non-convergence error with the guess and residual of that round; and where no
  guess meets the tolerance (and every step succeeds) the solve ends in that error.
\<close>

theorem solver_caps_and_non_convergence:
  "MotorBalance_I0_init = 40 \<and> I0 CoupledSolver_init = 40 \<and> iteration CoupledSolver_init = 0
   \<and> MotorGroup_nl_maxiter = 1000 \<and> MotorGroup_ln_maxiter = 100
   \<and> CoupledSolver_solve eval step m = CoupledSolver_solve eval (\<lambda>c. step 100) m
   \<and> (\<forall>m' st'. CoupledSolver_solve eval step m = Inr (m', st') \<longrightarrow>
         converged st' \<and> \<bar>residual st'\<bar> \<le> MotorGroup_nl_atol \<and> iteration st' \<le> 1000)
   \<and> (\<forall>st m' r. eval m (I0 st) = Inr (m', r) \<and> MotorGroup_nl_atol < \<bar>r\<bar>
           \<and> 1000 \<le> iteration st \<longrightarrow>
         CoupledSolver_iterate MotorGroup_nl_maxiter MotorGroup_nl_atol MotorGroup_ln_maxiter
           eval step m st = Inl (NonConvergenceError (I0 st) r))
   \<and> ((\<forall>m0 i0. \<exists>m1 r. eval m0 i0 = Inr (m1, r) \<and> MotorGroup_nl_atol < \<bar>r\<bar>)
        \<and> (\<forall>c m0 i0 r. step c m0 i0 r \<noteq> None) \<longrightarrow>
        (\<exists>i r. CoupledSolver_solve eval step m = Inl (NonConvergenceError i r)))"
proof (intro conjI allI impI)
  show "MotorBalance_I0_init = 40" by (simp add: MotorBalance_I0_init_def)
  show "I0 CoupledSolver_init = 40"
    by (simp add: CoupledSolver_init_def MotorBalance_I0_init_def)
  show "iteration CoupledSolver_init = 0" by (simp add: CoupledSolver_init_def)
  show "MotorGroup_nl_maxiter = 1000" by (simp add: MotorGroup_nl_maxiter_def)
  show "MotorGroup_ln_maxiter = 100" by (simp add: MotorGroup_ln_maxiter_def)
  show "CoupledSolver_solve eval step m = CoupledSolver_solve eval (\<lambda>c. step 100) m"
    unfolding CoupledSolver_solve_def
    using CoupledSolver_iterate_linear_cap[where lcap = MotorGroup_ln_maxiter
            and lcap' = MotorGroup_ln_maxiter and step = step]
    by (simp add: MotorGroup_ln_maxiter_def)
next
  fix m' st'
  assume "CoupledSolver_solve eval step m = Inr (m', st')"
  from CoupledSolver_solve_Inr[OF this]
  show "converged st'" and "\<bar>residual st'\<bar> \<le> MotorGroup_nl_atol"
    and "iteration st' \<le> 1000"
    by (simp_all add: MotorGroup_nl_maxiter_def)
next
  fix st :: SolverState and m' r
  assume a: "eval m (I0 st) = Inr (m', r) \<and> MotorGroup_nl_atol < \<bar>r\<bar> \<and> 1000 \<le> iteration st"
  then have e: "eval m (I0 st) = Inr (m', r)" and t: "MotorGroup_nl_atol < \<bar>r\<bar>"
    and c: "MotorGroup_nl_maxiter \<le> iteration st"
    by (simp_all add: MotorGroup_nl_maxiter_def)
  show "CoupledSolver_iterate MotorGroup_nl_maxiter MotorGroup_nl_atol MotorGroup_ln_maxiter
           eval step m st = Inl (NonConvergenceError (I0 st) r)"
    using e t c by (rule CoupledSolver_iterate_at_cap)
next
  assume a: "(\<forall>m0 i0. \<exists>m1 r. eval m0 i0 = Inr (m1, r) \<and> MotorGroup_nl_atol < \<bar>r\<bar>)
        \<and> (\<forall>c m0 i0 r. step c m0 i0 r \<noteq> None)"
  have ev: "\<exists>m1 r. eval m0 i0 = Inr (m1, r) \<and> MotorGroup_nl_atol < \<bar>r\<bar>" for m0 i0
    using a by blast
  have st: "step c m0 i0 r \<noteq> None" for c m0 i0 r
    using a by blast
  show "\<exists>i r. CoupledSolver_solve eval step m = Inl (NonConvergenceError i r)"
    unfolding CoupledSolver_solve_def
    by (rule CoupledSolver_iterate_never_meeting[where eval = eval and step = step,
          OF ev st])
qed

theorem solver_caps_and_non_convergence_witness:
  "(\<exists>st'. CoupledSolver_solve (\<lambda>m i. Inr (m, 0)) (\<lambda>c m i r. None) () = Inr ((), st')
        \<and> converged st' \<and> iteration st' \<le> 1000)
   \<and> (\<exists>i r. CoupledSolver_solve (\<lambda>m i. Inr (m, 1)) (\<lambda>c m i r. Some i) ()
               = Inl (NonConvergenceError i r))
   \<and> CoupledSolver_iterate MotorGroup_nl_maxiter MotorGroup_nl_atol MotorGroup_ln_maxiter
        (\<lambda>m i. Inr (m, 1)) (\<lambda>c m i r. Some i) () (CoupledSolver_init\<lparr>iteration := 1000\<rparr>)
       = Inl (NonConvergenceError 40 1)"
proof (intro conjI)
  let ?e = "\<lambda>(m::unit) (i::real). (Inr (m, 0) :: error + unit \<times> real)"
  let ?n = "\<lambda>(c::nat) (m::unit) (i::real) (r::real). (None :: real option)"
  have "CoupledSolver_solve ?e ?n ()
          = Inr ((), CoupledSolver_init\<lparr>residual := 0, converged := True\<rparr>)"
    unfolding CoupledSolver_solve_def
    by (rule CoupledSolver_iterate_converged_now) (simp_all add: MotorGroup_nl_atol_def)
  with solver_caps_and_non_convergence[of ?e ?n "()"]
  show "\<exists>st'. CoupledSolver_solve ?e ?n () = Inr ((), st')
        \<and> converged st' \<and> iteration st' \<le> 1000"
    by blast
next
  let ?e = "\<lambda>(m::unit) (i::real). (Inr (m, 1) :: error + unit \<times> real)"
  let ?s = "\<lambda>(c::nat) (m::unit) (i::real) (r::real). Some i"
  have "(\<forall>m0 i0. \<exists>m1 r. ?e m0 i0 = Inr (m1, r) \<and> MotorGroup_nl_atol < \<bar>r\<bar>)
        \<and> (\<forall>c m0 i0 r. ?s c m0 i0 r \<noteq> None)"
    by (simp add: MotorGroup_nl_atol_def)
  with solver_caps_and_non_convergence[of ?e ?s "()"]
  show "\<exists>i r. CoupledSolver_solve ?e ?s () = Inl (NonConvergenceError i r)"
    by blast
next
  let ?e = "\<lambda>(m::unit) (i::real). (Inr (m, 1) :: error + unit \<times> real)"
  let ?s = "\<lambda>(c::nat) (m::unit) (i::real) (r::real). Some i"
  let ?st = "CoupledSolver_init\<lparr>iteration := 1000\<rparr>"
  have "?e () (I0 ?st) = Inr ((), 1) \<and> MotorGroup_nl_atol < \<bar>1::real\<bar>
          \<and> 1000 \<le> iteration ?st"
    by (simp add: MotorGroup_nl_atol_def)
  with solver_caps_and_non_convergence[of ?e ?s "()"]
  have "CoupledSolver_iterate MotorGroup_nl_maxiter MotorGroup_nl_atol MotorGroup_ln_maxiter
        ?e ?s () ?st = Inl (NonConvergenceError (I0 ?st) 1)"
    by blast
  then show "CoupledSolver_iterate MotorGroup_nl_maxiter MotorGroup_nl_atol
        MotorGroup_ln_maxiter ?e ?s () ?st = Inl (NonConvergenceError 40 1)"
    by (simp add: CoupledSolver_init_def MotorBalance_I0_init_def)
qed

end
